theory Spec2Isabelle
  imports
    Complex_Main
    "HOL-Library.AList"
    "HOL-Library.Char_ord"
    "HOL-Library.List_Lexorder"
    "HOL-Library.Multiset"
    "HOL-Library.Sublist"
begin

section \<open>Python strings\<close>

text \<open>
  A Python \<^verbatim>\<open>str\<close> is a sequence of code points. The model is \<^typ>\<open>string\<close>, a list
  of 8-bit characters, read as the code points 0 to 255 (ASCII and Latin-1); names with
  code points beyond 255 are outside the model.

  \<^verbatim>\<open>str.lower()\<close> on that range maps \<^verbatim>\<open>A-Z\<close> (65 to 90) and the Latin-1 capitals
  (192 to 222 without the multiplication sign 215) to the code point 32 higher, and
  leaves every other code point alone. \<^verbatim>\<open>str.strip()\<close> without an argument removes
  leading and trailing whitespace; on that range \<^verbatim>\<open>str.isspace\<close> holds for 9 to 13,
  28 to 32, 133 and 160.
\<close>

definition lower_char :: "char \<Rightarrow> char" where
  "lower_char c =
     (let n = (of_char c :: nat)
      in if (65 \<le> n \<and> n \<le> 90) \<or> (192 \<le> n \<and> n \<le> 222 \<and> n \<noteq> 215)
         then char_of (n + 32) else c)"

definition isspace :: "char \<Rightarrow> bool" where
  "isspace c =
     (let n = (of_char c :: nat)
      in (9 \<le> n \<and> n \<le> 13) \<or> (28 \<le> n \<and> n \<le> 32) \<or> n = 133 \<or> n = 160)"

definition lower :: "string \<Rightarrow> string" where
  "lower s = map lower_char s"

definition strip :: "string \<Rightarrow> string" where
  "strip s = rev (dropWhile isspace (rev (dropWhile isspace s)))"

section \<open>Exceptions and Streamlit messages\<close>

text \<open>
  Every \<^verbatim>\<open>raise\<close> is a value: a function that may raise returns \<open>exn + 'a\<close>, with
  \<open>Inl\<close> the exception. The handlers of the program are all \<^verbatim>\<open>except Exception as e\<close>,
  so the class of the exception is all the model keeps. \<^verbatim>\<open>st.error\<close> and
  \<^verbatim>\<open>st.warning\<close> write to the page; the page is the list of messages written so far,
  passed in and returned. The f-string of a message is its text and the exception
  interpolated into it.
\<close>

datatype exn =
  OSError | JSONDecodeError | KeyError | TypeError | AttributeError
  | ImportError | DatabaseError

datatype st_msg = St_error string exn | St_warning string

section \<open>The boundary file: \<^verbatim>\<open>load_geojson_data\<close>\<close>

text \<open>
  What \<^verbatim>\<open>json.load\<close> returns: \<^verbatim>\<open>None\<close>, a bool, a number, a str, a list or a dict
  with str keys. A dict is an association list in insertion order; \<open>map_of\<close> reads a
  key and \<open>AList.update\<close> stores one, in place when the key is there and at the end
  otherwise, as a Python dict does.
\<close>

datatype json =
  JNull | JBool bool | JNum rat | JStr string | JArr "json list"
  | JObj "(string \<times> json) list"

text \<open>
  Lines 51 to 55:
  \<^verbatim>\<open>
  standardized_name = state_name.lower().strip()
  if standardized_name == "orissa":
      standardized_name = "odisha"
  \<close>
\<close>

definition standardize_name :: "string \<Rightarrow> string" where
  "standardize_name state_name =
     (let standardized_name = strip (lower state_name)
      in if standardized_name = ''orissa'' then ''odisha'' else standardized_name)"

text \<open>
  Lines 49 to 59, the value stored under \<^verbatim>\<open>State_Name\<close>:
  \<^verbatim>\<open>
  if isinstance(state_name, str): ... feature["properties"]["State_Name"] = standardized_name
  else: feature["properties"]["State_Name"] = ""
  \<close>
\<close>

fun state_name_key :: "json \<Rightarrow> string" where
  "state_name_key (JStr state_name) = standardize_name state_name"
| "state_name_key _ = ''''"

text \<open>
  The body of the loop, lines 45 to 59, for one element of \<^verbatim>\<open>geojson_data["features"]\<close>.
  For a dict: a missing \<^verbatim>\<open>properties\<close> becomes \<^verbatim>\<open>{}\<close>; then
  \<^verbatim>\<open>feature["properties"].get("NAME_1", "")\<close> raises AttributeError unless the
  properties are a dict. For an element that is not a dict, \<^verbatim>\<open>"properties" not in feature\<close>
  raises TypeError (a number, a bool, \<^verbatim>\<open>None\<close>), or the subscript that follows does
  (a list, a str).
\<close>

fun process_feature :: "json \<Rightarrow> exn + json" where
  "process_feature (JObj feature) =
     (let feature1 =
        (if map_of feature ''properties'' = None
         then AList.update ''properties'' (JObj []) feature else feature)
      in case map_of feature1 ''properties'' of
           Some (JObj properties) \<Rightarrow>
             (let state_name =
                (case map_of properties ''NAME_1'' of Some v \<Rightarrow> v | None \<Rightarrow> JStr '''')
              in Inr (JObj (AList.update ''properties''
                    (JObj (AList.update ''State_Name'' (JStr (state_name_key state_name))
                       properties))
                    feature1)))
         | _ \<Rightarrow> Inl AttributeError)"
| "process_feature _ = Inl TypeError"

text \<open>The \<^verbatim>\<open>for\<close> loop over a list: the first exception ends it.\<close>

fun process_features :: "json list \<Rightarrow> exn + json list" where
  "process_features [] = Inr []"
| "process_features (feature # features) =
     (case process_feature feature of
        Inl e \<Rightarrow> Inl e
      | Inr feature' \<Rightarrow>
          (case process_features features of
             Inl e \<Rightarrow> Inl e
           | Inr features' \<Rightarrow> Inr (feature' # features')))"

text \<open>
  \<^verbatim>\<open>for feature in geojson_data["features"]\<close> for any value under \<^verbatim>\<open>features\<close>. A
  list is walked. A dict yields its keys and a str its characters, which are strs: the
  loop body raises TypeError on the first one, and an empty dict or str is left as it
  is. Anything else is not iterable.
\<close>

fun iterate_features :: "json \<Rightarrow> exn + json" where
  "iterate_features (JArr features) =
     (case process_features features of Inl e \<Rightarrow> Inl e | Inr features' \<Rightarrow> Inr (JArr features'))"
| "iterate_features (JObj []) = Inr (JObj [])"
| "iterate_features (JStr []) = Inr (JStr [])"
| "iterate_features _ = Inl TypeError"

text \<open>
  The body of the \<^verbatim>\<open>try\<close>, lines 40 to 61. The argument is the outcome of
  \<^verbatim>\<open>open\<close> and \<^verbatim>\<open>json.load\<close>: the exception they raised, or the value read.
  \<^verbatim>\<open>geojson_data["features"]\<close> raises KeyError on a dict without the key and TypeError
  on anything that is not a dict.
\<close>

fun geojson_try :: "exn + json \<Rightarrow> exn + json" where
  "geojson_try (Inl e) = Inl e"
| "geojson_try (Inr (JObj geojson_data)) =
     (case map_of geojson_data ''features'' of
        None \<Rightarrow> Inl KeyError
      | Some features \<Rightarrow>
          (case iterate_features features of
             Inl e \<Rightarrow> Inl e
           | Inr features' \<Rightarrow> Inr (JObj (AList.update ''features'' features' geojson_data))))"
| "geojson_try (Inr _) = Inl TypeError"

definition empty_feature_collection :: json where
  "empty_feature_collection =
     JObj [(''type'', JStr ''FeatureCollection''), (''features'', JArr [])]"

definition load_geojson_data :: "exn + json \<Rightarrow> st_msg list \<Rightarrow> json \<times> st_msg list" where
  "load_geojson_data file page =
     (case geojson_try file of
        Inr geojson_data \<Rightarrow> (geojson_data, page)
      | Inl e \<Rightarrow>
          (empty_feature_collection,
           page @ [St_error ''Failed to load GeoJSON data: '' e]))"

text \<open>The features of a loaded collection: the elements of the list under \<^verbatim>\<open>features\<close>.\<close>

fun features_of :: "json \<Rightarrow> json list" where
  "features_of (JObj geojson_data) =
     (case map_of geojson_data ''features'' of Some (JArr features) \<Rightarrow> features | _ \<Rightarrow> [])"
| "features_of _ = []"

section \<open>The tables: \<^verbatim>\<open>get_database_engine\<close> and \<^verbatim>\<open>load_table_data\<close>\<close>

text \<open>
  A DataFrame read from a SQL table is a list of named columns. A text column has dtype
  object and holds strs and \<^verbatim>\<open>None\<close> for NULL; a numeric column holds numbers and NaN
  for NULL. \<^verbatim>\<open>pd.DataFrame()\<close> has no column.
\<close>

datatype column = StrCol "string option list" | NumCol "real option list"

type_synonym dataframe = "(string \<times> column) list"

text \<open>
  \<^verbatim>\<open>df["States"].str\<close>: the accessor raises AttributeError on a column that is not
  of strings (\<^verbatim>\<open>Can only use .str accessor with string values!\<close>). Its methods work
  element by element and leave a missing element missing.
\<close>

fun str_accessor :: "column \<Rightarrow> exn + string option list" where
  "str_accessor (StrCol xs) = Inr xs"
| "str_accessor (NumCol _) = Inl AttributeError"

definition str_lower :: "string option list \<Rightarrow> string option list" where
  "str_lower xs = map (map_option lower) xs"

definition str_strip :: "string option list \<Rightarrow> string option list" where
  "str_strip xs = map (map_option strip) xs"

text \<open>Lines 82 to 86.\<close>

definition state_mappings :: "(string \<times> string) list" where
  "state_mappings =
     [(''andaman and nicobar'', ''andaman & nicobar islands''),
      (''dadra and nagar haveli and daman and diu'', ''dadra & nagar haveli & daman & diu''),
      (''orissa'', ''odisha'')]"

text \<open>
  \<^verbatim>\<open>Series.replace(dict)\<close>: an element equal to a key becomes that key's value; every
  element is compared as it was before the call, and a missing element stays missing.
\<close>

definition replace :: "(string \<times> string) list \<Rightarrow> string option list \<Rightarrow> string option list" where
  "replace mappings xs =
     map (map_option (\<lambda>s. case map_of mappings s of Some t \<Rightarrow> t | None \<Rightarrow> s)) xs"

text \<open>Lines 79 and 87: what the \<^verbatim>\<open>States\<close> column becomes.\<close>

definition standardize_states :: "string option list \<Rightarrow> string option list" where
  "standardize_states xs = replace state_mappings (str_strip (str_lower xs))"

text \<open>What one str of the column becomes; \<open>standardize_states_map\<close> below relates the two.\<close>

definition standardize_state :: "string \<Rightarrow> string" where
  "standardize_state s =
     (let n = strip (lower s)
      in case map_of state_mappings n of Some t \<Rightarrow> t | None \<Rightarrow> n)"

text \<open>
  Lines 78 to 90. With one column named \<^verbatim>\<open>States\<close>, the column is standardized in
  place and renamed to \<^verbatim>\<open>State\<close>. With several, \<^verbatim>\<open>df["States"]\<close> is a DataFrame,
  which has no \<^verbatim>\<open>str\<close>: AttributeError.
\<close>

definition rename_states :: "dataframe \<Rightarrow> dataframe" where
  "rename_states df = map (\<lambda>(name, col). (if name = ''States'' then ''State'' else name, col)) df"

definition standardize_table :: "dataframe \<Rightarrow> exn + dataframe" where
  "standardize_table df =
     (case filter (\<lambda>(name, col). name = ''States'') df of
        [] \<Rightarrow> Inr df
      | [(name, col)] \<Rightarrow>
          (case str_accessor col of
             Inl e \<Rightarrow> Inl e
           | Inr xs \<Rightarrow>
               Inr (rename_states (AList.update ''States'' (StrCol (standardize_states xs)) df)))
      | _ \<Rightarrow> Inl AttributeError)"

text \<open>
  Lines 24 to 31. \<^verbatim>\<open>create_engine\<close> is a parameter: the exception it raised, or the
  engine.
\<close>

definition get_database_engine :: "exn + 'engine \<Rightarrow> st_msg list \<Rightarrow> 'engine option \<times> st_msg list" where
  "get_database_engine create_engine page =
     (case create_engine of
        Inr engine \<Rightarrow> (Some engine, page)
      | Inl e \<Rightarrow> (None, page @ [St_error ''Database connection failed: '' e]))"

text \<open>
  Lines 67 to 95. \<^verbatim>\<open>pd.read_sql\<close> is a parameter: from the query and the engine, the
  exception it raised (the server is unreachable, the table does not exist) or the
  DataFrame.
\<close>

definition load_table_data ::
  "exn + 'engine \<Rightarrow> (string \<Rightarrow> 'engine \<Rightarrow> exn + dataframe) \<Rightarrow> string \<Rightarrow> st_msg list
     \<Rightarrow> dataframe \<times> st_msg list" where
  "load_table_data create_engine read_sql table_name page =
     (case get_database_engine create_engine page of
        (None, page1) \<Rightarrow> ([], page1)
      | (Some engine, page1) \<Rightarrow>
          (case (case read_sql (''SELECT * FROM '' @ table_name) engine of
                   Inl e \<Rightarrow> Inl e
                 | Inr df \<Rightarrow> standardize_table df) of
             Inr df \<Rightarrow> (df, page1)
           | Inl e \<Rightarrow>
               ([], page1 @ [St_error (''Failed to load data from '' @ table_name @ '': '') e])))"

section \<open>The aggregation layer\<close>

text \<open>
  The frames that \<^verbatim>\<open>groupby("State").agg({...: "sum"}).reset_index()\<close> returns have
  one row for each group: the key, which is never missing, and the sums. Their columns
  carry the names of the columns of the table, so they are written with the name of the
  record in front.
\<close>

record transaction_summary_row =
  State :: string
  Transaction_amount :: real
  Transaction_count :: int

record user_summary_row =
  State :: string
  RegisteredUsers :: int
  AppOpens :: int

text \<open>
  The rows of the loaded tables, with the columns the pages read. \<^verbatim>\<open>State\<close> is the
  standardized \<^verbatim>\<open>States\<close> column, so a NULL there is a missing value
  (\<open>None\<close>). The numeric columns hold numbers: counts are integers, amounts are
  floats, modelled as the real numbers they stand for (rounding is outside the model).
  \<^verbatim>\<open>aggregated_transaction\<close> has \<^verbatim>\<open>Transaction_type\<close>, \<^verbatim>\<open>aggregated_user\<close> has
  \<^verbatim>\<open>Brands\<close>, \<^verbatim>\<open>map_transaction\<close> is read through the columns of
  \<open>transaction_row\<close>, and \<^verbatim>\<open>map_user\<close> has \<^verbatim>\<open>District\<close>, \<^verbatim>\<open>RegisteredUsers\<close>
  and \<^verbatim>\<open>AppOpens\<close>.
\<close>

record period_row =
  State :: "string option"
  Years :: int
  Quarter :: int

record count_row = period_row +
  Transaction_count :: int

record transaction_row = count_row +
  Transaction_amount :: real

record agg_transaction_row = transaction_row +
  Transaction_type :: "string option"


record map_user_row = period_row +
  District :: "string option"
  RegisteredUsers :: int
  AppOpens :: int

text \<open>
  The boolean mask of lines 310 to 313 (and 240, 379, 402, 432, 488, 546):
  \<^verbatim>\<open>df[(df["Years"] == selected_year) & (df["Quarter"] == selected_quarter)]\<close>.
\<close>

definition filtered_data ::
  "'a period_row_scheme list \<Rightarrow> int \<Rightarrow> int \<Rightarrow> 'a period_row_scheme list" where
  "filtered_data df selected_year selected_quarter =
     filter (\<lambda>r. Years r = selected_year \<and> Quarter r = selected_quarter) df"

text \<open>
  \<^verbatim>\<open>df.groupby(key)\<close> with the defaults \<^verbatim>\<open>sort=True\<close> and \<^verbatim>\<open>dropna=True\<close>: one
  group for each distinct key that is not missing, in ascending order of the key (strs
  compare code point by code point); a row whose key is missing belongs to no group.
  \<^verbatim>\<open>.sum()\<close> adds a column up within each group.
\<close>

definition group_keys :: "('r \<Rightarrow> 'k::linorder option) \<Rightarrow> 'r list \<Rightarrow> 'k list" where
  "group_keys key df = sort (remdups (List.map_filter key df))"

definition get_group :: "('r \<Rightarrow> 'k option) \<Rightarrow> 'r list \<Rightarrow> 'k \<Rightarrow> 'r list" where
  "get_group key df k = filter (\<lambda>r. key r = Some k) df"


text \<open>
  \<^verbatim>\<open>df.groupby(key)[col].sum()\<close>, a Series indexed by the key; with
  \<^verbatim>\<open>.reset_index()\<close> a frame of the two columns.
\<close>

definition groupby_sum ::
  "('r \<Rightarrow> 'k::linorder option) \<Rightarrow> ('r \<Rightarrow> 'v::comm_monoid_add) \<Rightarrow> 'r list \<Rightarrow> ('k \<times> 'v) list" where
  "groupby_sum key col df =
     map (\<lambda>k. (k, sum_list (map col (get_group key df k)))) (group_keys key df)"

text \<open>
  Lines 317 to 320 (the same expression at 243 to 246 and 494 to 497):
  \<^verbatim>\<open>
  filtered_data.groupby("State").agg({"Transaction_amount": "sum",
                                      "Transaction_count": "sum"}).reset_index()
  \<close>
\<close>

definition state_summary :: "'a transaction_row_scheme list \<Rightarrow> transaction_summary_row list" where
  "state_summary df =
     map (\<lambda>k. \<lparr>transaction_summary_row.State = k,
               transaction_summary_row.Transaction_amount =
                 sum_list (map transaction_row.Transaction_amount (get_group period_row.State df k)),
               transaction_summary_row.Transaction_count =
                 sum_list (map count_row.Transaction_count (get_group period_row.State df k))\<rparr>)
       (group_keys period_row.State df)"

text \<open>Line 321: \<^verbatim>\<open>state_summary["Amount_M"] = state_summary["Transaction_amount"] / 1e6\<close>.\<close>

definition Amount_M :: "transaction_summary_row \<Rightarrow> real" where
  "Amount_M r = transaction_summary_row.Transaction_amount r / 1000000"

text \<open>Lines 552 to 555, the same for \<^verbatim>\<open>RegisteredUsers\<close> and \<^verbatim>\<open>AppOpens\<close>.\<close>

definition user_summary :: "map_user_row list \<Rightarrow> user_summary_row list" where
  "user_summary user_growth_data =
     map (\<lambda>k. \<lparr>user_summary_row.State = k,
               user_summary_row.RegisteredUsers =
                 sum_list (map map_user_row.RegisteredUsers
                   (get_group period_row.State user_growth_data k)),
               user_summary_row.AppOpens =
                 sum_list (map map_user_row.AppOpens
                   (get_group period_row.State user_growth_data k))\<rparr>)
       (group_keys period_row.State user_growth_data)"

subsection \<open>The derived ratios\<close>

text \<open>
  The quotient of two numeric Series is a float64 Series, divided element by element
  as IEEE 754 does: a nonzero number over zero is an infinity with the sign of the
  numerator, and zero over zero is NaN. No exception is raised. \<^verbatim>\<open>fillna(0)\<close> puts 0
  where the element is NaN and leaves every other element, the infinities too.
\<close>

datatype float64 = Finite real | PosInf | NegInf | NaN

definition truediv :: "real \<Rightarrow> real \<Rightarrow> float64" where
  "truediv a b =
     (if b \<noteq> 0 then Finite (a / b)
      else if 0 < a then PosInf else if a < 0 then NegInf else NaN)"

fun fillna :: "real \<Rightarrow> float64 \<Rightarrow> float64" where
  "fillna v NaN = Finite v"
| "fillna v x = x"

text \<open>
  Lines 517 to 519:
  \<^verbatim>\<open>
  expansion_summary["Growth_Score"] = (
      expansion_summary["Transaction_amount"] / expansion_summary["Transaction_count"]
  ).fillna(0)
  \<close>
\<close>

definition Growth_Score :: "transaction_summary_row \<Rightarrow> float64" where
  "Growth_Score r =
     fillna 0 (truediv (transaction_summary_row.Transaction_amount r)
       (real_of_int (transaction_summary_row.Transaction_count r)))"

text \<open>Lines 575 to 577, \<^verbatim>\<open>AppOpens\<close> over \<^verbatim>\<open>RegisteredUsers\<close>.\<close>

definition Engagement_Rate :: "user_summary_row \<Rightarrow> float64" where
  "Engagement_Rate r =
     fillna 0 (truediv (real_of_int (user_summary_row.AppOpens r))
       (real_of_int (user_summary_row.RegisteredUsers r)))"

subsection \<open>Ranking\<close>

text \<open>
  \<^verbatim>\<open>nlargest(n, col)\<close> with the default \<^verbatim>\<open>keep="first"\<close> is pandas code, not code of
  the dashboard. With fewer than all rows asked for, pandas negates the column, sorts the
  negated values with a stable merge sort and keeps the first \<open>n\<close> positions, so of
  equal values the earlier row comes first and is kept first. With all rows asked for
  (\<open>n\<close> at least the number of rows) it sorts the whole column in descending order and
  takes the first \<open>n\<close>; the model takes that sort to keep equal values in their order
  too, which pandas does not promise for its default sorting algorithm.
\<close>

definition nlargest :: "nat \<Rightarrow> ('r \<Rightarrow> 'v::linordered_ab_group_add) \<Rightarrow> 'r list \<Rightarrow> 'r list" where
  "nlargest n col df = take n (sort_key (\<lambda>r. - col r) df)"





section \<open>The chart builders\<close>

text \<open>
  A figure is what the builder hands to plotly: the data columns and the display
  options. A column argument is its name and the values it selects from a row. The
  colour bar title of the map is computed from \<^verbatim>\<open>value_col\<close> and \<^verbatim>\<open>value_suffix\<close>,
  which the figure keeps as they are. \<^verbatim>\<open>df.empty\<close> holds for a frame without rows.
\<close>

datatype figure =
  Choropleth json "string list" "real list" string "string \<times> string" string
  | Pie "real list" "string list" string
  | Bar "string list" "real list" string bool

text \<open>Lines 124 to 155; \<^verbatim>\<open>geojson_data\<close> is the global of line 184.\<close>

definition create_choropleth_map ::
  "json \<Rightarrow> 'r list \<Rightarrow> ('r \<Rightarrow> string) \<Rightarrow> string \<times> ('r \<Rightarrow> real) \<Rightarrow> string \<Rightarrow> string \<Rightarrow> string
     \<Rightarrow> st_msg list \<Rightarrow> figure option \<times> st_msg list" where
  "create_choropleth_map geojson_data df State_col value_col title color_scale value_suffix page =
     (if df = [] then (None, page @ [St_warning ''No data available for the map.''])
      else (Some (Choropleth geojson_data (map State_col df) (map (snd value_col) df)
                    color_scale (fst value_col, value_suffix) title), page))"

text \<open>Lines 157 to 165.\<close>

definition create_pie_chart ::
  "'r list \<Rightarrow> ('r \<Rightarrow> real) \<Rightarrow> ('r \<Rightarrow> string) \<Rightarrow> string \<Rightarrow> st_msg list
     \<Rightarrow> figure option \<times> st_msg list" where
  "create_pie_chart df values_col names_col title page =
     (if df = [] then (None, page @ [St_warning ''No data available for the chart.''])
      else (Some (Pie (map values_col df) (map names_col df) title), page))"

text \<open>Lines 167 to 176.\<close>

definition create_bar_chart ::
  "'r list \<Rightarrow> ('r \<Rightarrow> string) \<Rightarrow> ('r \<Rightarrow> real) \<Rightarrow> string \<Rightarrow> bool \<Rightarrow> st_msg list
     \<Rightarrow> figure option \<times> st_msg list" where
  "create_bar_chart df x_col y_col title text_auto page =
     (if df = [] then (None, page @ [St_warning ''No data available for the chart.''])
      else (Some (Bar (map x_col df) (map y_col df) title text_auto), page))"

section \<open>An example table\<close>

text \<open>
  Four rows of \<^verbatim>\<open>aggregated_transaction\<close> for one quarter, with two rows for one state and
  two states whose amounts add up to the same sum.
\<close>

definition example_rows :: "agg_transaction_row list" where
  "example_rows =
     [\<lparr>State = Some ''goa'', Years = 2023, Quarter = 1, Transaction_count = 5,
       Transaction_amount = 40, Transaction_type = Some ''Recharge''\<rparr>,
      \<lparr>State = Some ''bihar'', Years = 2023, Quarter = 1, Transaction_count = 5,
       Transaction_amount = 70, Transaction_type = Some ''Merchant''\<rparr>,
      \<lparr>State = Some ''assam'', Years = 2023, Quarter = 1, Transaction_count = 9,
       Transaction_amount = 30, Transaction_type = Some ''Peer''\<rparr>,
      \<lparr>State = Some ''goa'', Years = 2023, Quarter = 1, Transaction_count = 2,
       Transaction_amount = 30, Transaction_type = Some ''Merchant''\<rparr>]"

section \<open>Properties of the name standardization\<close>

lemma lower_char_idem: "lower_char (lower_char c) = lower_char c"
  by (auto simp: lower_char_def Let_def)

lemma isspace_lower_char: "isspace (lower_char c) = isspace c"
  by (auto simp: lower_char_def isspace_def Let_def)

lemma lower_idem: "lower (lower s) = lower s"
  by (simp add: lower_def lower_char_idem)

lemma dropWhile_isspace_lower:
  "dropWhile isspace (lower s) = lower (dropWhile isspace s)"
  by (induction s) (simp_all add: lower_def isspace_lower_char)

lemma lower_strip: "lower (strip s) = strip (lower s)"
proof -
  have "rev (lower s) = lower (rev s)" for s
    by (simp add: lower_def rev_map)
  then show ?thesis
    by (metis dropWhile_isspace_lower strip_def)
qed

lemma dropWhile_strip: "dropWhile isspace (strip s) = strip s"
proof (cases "strip s")
  case Nil
  then show ?thesis by simp
next
  case (Cons x xs)
  define t where "t = dropWhile isspace s"
  define u where "u = rev (takeWhile isspace (rev t))"
  have "rev t = takeWhile isspace (rev t) @ dropWhile isspace (rev t)"
    by simp
  then have "t = strip s @ u"
    unfolding strip_def t_def u_def by (metis rev_append rev_rev_ident)
  with Cons have t: "t = x # (xs @ u)"
    by simp
  then have "t \<noteq> []" by simp
  then have "\<not> isspace (hd t)"
    unfolding t_def by (rule hd_dropWhile)
  with t have "\<not> isspace x" by simp
  with Cons show ?thesis by simp
qed

lemma strip_idem: "strip (strip s) = strip s"
proof -
  have "strip (strip s) = rev (dropWhile isspace (rev (strip s)))"
    by (simp add: strip_def[of "strip s"] dropWhile_strip)
  also have "\<dots> = strip s"
    by (simp add: strip_def dropWhile_idem)
  finally show ?thesis .
qed

lemma strip_lower_fixed:
  "strip (lower (strip (lower s))) = strip (lower s)"
  by (simp add: lower_strip lower_idem strip_idem)

lemma standardize_name_odisha: "standardize_name ''odisha'' = ''odisha''"
  by code_simp

lemma standardize_name_idem:
  "standardize_name (standardize_name s) = standardize_name s"
proof (cases "strip (lower s) = ''orissa''")
  case True
  then show ?thesis by (simp add: standardize_name_def[of s] standardize_name_odisha)
next
  case False
  then show ?thesis by (simp add: standardize_name_def strip_lower_fixed)
qed

lemma state_name_key_idem:
  "state_name_key (JStr (state_name_key v)) = state_name_key v"
proof (cases v)
  case (JStr s) then show ?thesis by (simp add: standardize_name_idem)
qed (simp_all, (code_simp)+)

lemma standardize_states_map:
  "standardize_states xs = map (map_option standardize_state) xs"
  by (simp add: standardize_states_def replace_def str_strip_def str_lower_def standardize_state_def[abs_def] option.map_comp comp_def Let_def)

lemma targets_fixed:
  "standardize_state ''odisha'' = ''odisha''"
  "standardize_state ''andaman & nicobar islands'' = ''andaman & nicobar islands''"
  "standardize_state ''dadra & nagar haveli & daman & diu'' = ''dadra & nagar haveli & daman & diu''"
  by code_simp+

lemma map_of_state_mappings_cases:
  "map_of state_mappings n = Some t \<Longrightarrow>
     t = ''odisha'' \<or> t = ''andaman & nicobar islands'' \<or> t = ''dadra & nagar haveli & daman & diu''"
  by (auto simp: state_mappings_def split: if_splits)

lemma standardize_state_idem:
  "standardize_state (standardize_state s) = standardize_state s"
proof (cases "map_of state_mappings (strip (lower s))")
  case None
  then have "standardize_state s = strip (lower s)"
    by (simp add: standardize_state_def)
  with None show ?thesis
    by (simp add: standardize_state_def strip_lower_fixed)
next
  case (Some t)
  then have "standardize_state s = t"
    by (simp add: standardize_state_def)
  with map_of_state_mappings_cases[OF Some] show ?thesis
    by (auto simp: targets_fixed)
qed

lemma standardize_states_idem:
  "standardize_states (standardize_states xs) = standardize_states xs"
  by (simp add: standardize_states_map option.map_comp comp_def standardize_state_idem)

subsection \<open>Orissa\<close>

text \<open>
  C9. Every name that lowercases and trims to \<^verbatim>\<open>orissa\<close>, such as \<^verbatim>\<open>Orissa\<close> and
  \<^verbatim>\<open>"  ORISSA "\<close>, gets the key \<^verbatim>\<open>odisha\<close>: as the \<^verbatim>\<open>State_Name\<close> of a boundary
  feature, and as the \<^verbatim>\<open>State\<close> of a table row.
\<close>

theorem orissa_to_odisha:
  "strip (lower s) = ''orissa'' \<longrightarrow>
     standardize_name s = ''odisha'' \<and> state_name_key (JStr s) = ''odisha''
     \<and> standardize_states [Some s] = [Some ''odisha'']"
  by (simp add: standardize_name_def standardize_states_map standardize_state_def
      state_mappings_def)

theorem orissa_to_odisha_witness:
  "(strip (lower ''Orissa'') = ''orissa''
     \<and> standardize_name ''Orissa'' = ''odisha'' \<and> state_name_key (JStr ''Orissa'') = ''odisha''
     \<and> standardize_states [Some ''Orissa''] = [Some ''odisha''])
   \<and> (strip (lower ''  ORISSA '') = ''orissa''
     \<and> standardize_name ''  ORISSA '' = ''odisha''
     \<and> state_name_key (JStr ''  ORISSA '') = ''odisha''
     \<and> standardize_states [Some ''  ORISSA ''] = [Some ''odisha''])"
proof -
  have h1: "strip (lower ''Orissa'') = ''orissa''" by code_simp
  have h2: "strip (lower ''  ORISSA '') = ''orissa''" by code_simp
  note c1 = orissa_to_odisha [of "''Orissa''", rule_format, OF h1]
  note c2 = orissa_to_odisha [of "''  ORISSA ''", rule_format, OF h2]
  show ?thesis by (rule conjI [OF conjI [OF h1 c1] conjI [OF h2 c2]])
qed

text \<open>The same through the two loaders, on a boundary file and on a table.\<close>

lemma load_geojson_data_orissa:
  "load_geojson_data
     (Inr (JObj [(''type'', JStr ''FeatureCollection''),
                 (''features'', JArr [JObj [(''type'', JStr ''Feature''),
                     (''properties'', JObj [(''NAME_1'', JStr ''  ORISSA '')])]])])) []
   = (JObj [(''type'', JStr ''FeatureCollection''),
            (''features'', JArr [JObj [(''type'', JStr ''Feature''),
                (''properties'', JObj [(''NAME_1'', JStr ''  ORISSA ''),
                                       (''State_Name'', JStr ''odisha'')])]])], [])"
  by code_simp

lemma load_table_data_orissa:
  "load_table_data (Inr ())
     (\<lambda>query engine. Inr [(''States'', StrCol [Some ''Orissa'', None, Some ''  ORISSA '']),
                          (''Years'', NumCol [Some 2023, Some 2023, Some 2024])])
     ''map_user'' []
   = ([(''State'', StrCol [Some ''odisha'', None, Some ''odisha'']),
       (''Years'', NumCol [Some 2023, Some 2023, Some 2024])], [])"
  by code_simp

subsection \<open>The Andaman and Nicobar Islands\<close>

text \<open>
  C2, as the code has it. In a table, \<^verbatim>\<open>Andaman and Nicobar\<close> and
  \<^verbatim>\<open>andaman & nicobar islands\<close> both get the key \<^verbatim>\<open>andaman & nicobar islands\<close>. In
  the boundary file only \<^verbatim>\<open>orissa\<close> is rewritten: \<^verbatim>\<open>andaman & nicobar islands\<close> keeps
  that key, and \<^verbatim>\<open>Andaman and Nicobar\<close> gets \<^verbatim>\<open>andaman and nicobar\<close>. So a table row
  with either form meets a boundary feature named \<^verbatim>\<open>andaman & nicobar islands\<close>, and
  none named \<^verbatim>\<open>Andaman and Nicobar\<close>.
\<close>

theorem andaman_keys:
  "standardize_states [Some ''Andaman and Nicobar'', Some ''andaman & nicobar islands'']
     = [Some ''andaman & nicobar islands'', Some ''andaman & nicobar islands'']
   \<and> state_name_key (JStr ''andaman & nicobar islands'') = ''andaman & nicobar islands''
   \<and> state_name_key (JStr ''Andaman and Nicobar'') = ''andaman and nicobar''"
  by code_simp

text \<open>The two forms do not get one key on both paths.\<close>

theorem andaman_same_key_counterexample:
  "\<not> (standardize_states [Some ''Andaman and Nicobar'']
          = standardize_states [Some ''andaman & nicobar islands'']
        \<and> state_name_key (JStr ''Andaman and Nicobar'')
          = state_name_key (JStr ''andaman & nicobar islands''))"
  by code_simp

subsection \<open>Names that are not strings\<close>

text \<open>
  C3, as the code has it. In the boundary file a \<^verbatim>\<open>NAME_1\<close> that is not a str gets the
  key \<^verbatim>\<open>""\<close>, and so does a feature without \<^verbatim>\<open>NAME_1\<close> (the default of \<^verbatim>\<open>get\<close>
  is \<^verbatim>\<open>""\<close>). In a table a missing \<^verbatim>\<open>States\<close> element stays missing, where it
  stands; it does not become \<^verbatim>\<open>""\<close>.
\<close>

theorem non_string_names:
  "((\<forall>s. v \<noteq> JStr s) \<longrightarrow> state_name_key v = '''')
   \<and> state_name_key (JStr '''') = ''''
   \<and> standardize_states (xs @ None # ys) = standardize_states xs @ None # standardize_states ys"
proof -
  have "state_name_key (JStr '''') = ''''" by code_simp
  moreover have "(\<forall>s. v \<noteq> JStr s) \<longrightarrow> state_name_key v = ''''"
    by (cases v) simp_all
  ultimately show ?thesis
    by (simp add: standardize_states_map)
qed

theorem non_string_names_witness:
  "(\<forall>s. JNull \<noteq> JStr s) \<and> state_name_key JNull = ''''
   \<and> standardize_states ([Some ''Goa''] @ None # [])
       = standardize_states [Some ''Goa''] @ None # standardize_states []"
proof -
  have h: "\<forall>s. JNull \<noteq> JStr s" by simp
  from non_string_names [of JNull "[Some ''Goa'']" "[]"] h
  show ?thesis by blast
qed

text \<open>A missing element of a table does not get the key \<^verbatim>\<open>""\<close>.\<close>

theorem non_string_empty_key_counterexample:
  "\<not> (standardize_states [None] = [Some ''''])"
  by code_simp

subsection \<open>Idempotence\<close>

text \<open>
  C4. Standardizing a name twice gives what standardizing it once gives, in the boundary
  file (for any JSON value under \<^verbatim>\<open>NAME_1\<close>) and in a table (for any column, missing
  elements included); no value of \<^verbatim>\<open>state_mappings\<close> is one of its keys, and
  \<^verbatim>\<open>odisha\<close> is left alone in the boundary file.
\<close>

theorem canonicalization_idempotent:
  "state_name_key (JStr (state_name_key v)) = state_name_key v
   \<and> standardize_states (standardize_states xs) = standardize_states xs
   \<and> list_all (\<lambda>(source, target). map_of state_mappings target = None) state_mappings
   \<and> standardize_name ''odisha'' = ''odisha''"
proof -
  have "list_all (\<lambda>(source, target). map_of state_mappings target = None) state_mappings"
    by (simp add: state_mappings_def)
  then show ?thesis
    by (intro conjI state_name_key_idem standardize_states_idem standardize_name_odisha)
qed

section \<open>Properties of the boundary loader\<close>

lemma process_feature_ok:
  assumes "process_feature f = Inr f'"
  shows "\<exists>feature properties.
           f' = JObj feature \<and> map_of feature ''properties'' = Some (JObj properties)
           \<and> map_of properties ''State_Name''
               = Some (JStr (state_name_key
                   (case map_of properties ''NAME_1'' of Some v \<Rightarrow> v | None \<Rightarrow> JStr '''')))"
proof (cases f)
  case (JObj feature)
  define feature1 where "feature1 =
    (if map_of feature ''properties'' = None
     then AList.update ''properties'' (JObj []) feature else feature)"
  from assms JObj obtain properties where
    props: "map_of feature1 ''properties'' = Some (JObj properties)"
    and f': "f' = JObj (AList.update ''properties''
                    (JObj (AList.update ''State_Name''
                       (JStr (state_name_key
                          (case map_of properties ''NAME_1'' of Some v \<Rightarrow> v | None \<Rightarrow> JStr '''')))
                       properties))
                    feature1)"
    by (auto simp: Let_def feature1_def [symmetric] split: option.splits json.splits)
  let ?p = "AList.update ''State_Name''
              (JStr (state_name_key
                 (case map_of properties ''NAME_1'' of Some v \<Rightarrow> v | None \<Rightarrow> JStr '''')))
              properties"
  have "map_of ?p ''NAME_1'' = map_of properties ''NAME_1''"
    by (simp add: update_conv')
  then have "map_of ?p ''State_Name''
      = Some (JStr (state_name_key
           (case map_of ?p ''NAME_1'' of Some v \<Rightarrow> v | None \<Rightarrow> JStr '''')))"
    by (simp add: update_conv')
  moreover have "map_of (AList.update ''properties'' (JObj ?p) feature1) ''properties''
      = Some (JObj ?p)"
    by (simp add: update_conv')
  ultimately show ?thesis
    using f' by blast
qed (use assms in simp_all)

lemma process_features_ok:
  "process_features fs = Inr fs' \<Longrightarrow> f' \<in> set fs' \<Longrightarrow> \<exists>f. process_feature f = Inr f'"
proof (induction fs arbitrary: fs')
  case Nil
  then show ?case by simp
next
  case (Cons a fs)
  then show ?case
    by (auto split: sum.splits)
qed

lemma features_of_loaded:
  assumes "geojson_try file = Inr g" and "f' \<in> set (features_of g)"
  shows "\<exists>f. process_feature f = Inr f'"
proof -
  from assms(1) obtain d fv fv' where fv: "map_of d ''features'' = Some fv"
      "iterate_features fv = Inr fv'" "g = JObj (AList.update ''features'' fv' d)"
    by (cases "file" rule: geojson_try.cases) (auto split: option.splits sum.splits)
  with assms(2) obtain fs' where fs': "fv' = JArr fs'" "f' \<in> set fs'"
    by (auto simp: update_conv' split: json.splits)
  with fv(2) obtain fs where "fv = JArr fs" "process_features fs = Inr fs'"
    by (cases fv rule: iterate_features.cases) (auto split: sum.splits)
  with fs'(2) show ?thesis
    by (blast dest: process_features_ok)
qed

lemma features_of_empty: "features_of empty_feature_collection = []"
  by (simp add: empty_feature_collection_def)

lemma state_name_key_get:
  "state_name_key (case x of Some v \<Rightarrow> v | None \<Rightarrow> JStr '''')
     = (case x of Some (JStr state_name) \<Rightarrow> standardize_name state_name | _ \<Rightarrow> '''')"
proof (cases x)
  case None
  have "standardize_name '''' = ''''" by code_simp
  with None show ?thesis by simp
next
  case (Some v)
  then show ?thesis by (cases v) simp_all
qed

text \<open>
  C10. Every feature of the collection that \<^verbatim>\<open>load_geojson_data\<close> returns is a dict
  whose \<^verbatim>\<open>properties\<close> are a dict with a \<^verbatim>\<open>State_Name\<close> that is a str: the
  lowercased, trimmed, Orissa-corrected \<^verbatim>\<open>NAME_1\<close> when that is a str, and \<^verbatim>\<open>""\<close>
  otherwise. When the \<^verbatim>\<open>try\<close> raises, whatever the exception, the function returns
  the empty FeatureCollection, which has no features, and reports the error.
\<close>

theorem loaded_features_have_state_name:
  "(\<forall>f \<in> set (features_of (fst (load_geojson_data file page))).
      \<exists>feature properties.
        f = JObj feature \<and> map_of feature ''properties'' = Some (JObj properties)
        \<and> map_of properties ''State_Name''
            = Some (JStr (case map_of properties ''NAME_1'' of
                            Some (JStr state_name) \<Rightarrow> standardize_name state_name
                          | _ \<Rightarrow> '''')))
   \<and> (\<forall>e. geojson_try file = Inl e \<longrightarrow>
         load_geojson_data file page
           = (empty_feature_collection, page @ [St_error ''Failed to load GeoJSON data: '' e])
         \<and> features_of empty_feature_collection = [])"
proof -
  have "\<exists>feature properties.
        f = JObj feature \<and> map_of feature ''properties'' = Some (JObj properties)
        \<and> map_of properties ''State_Name''
            = Some (JStr (case map_of properties ''NAME_1'' of
                            Some (JStr state_name) \<Rightarrow> standardize_name state_name
                          | _ \<Rightarrow> ''''))"
    if "f \<in> set (features_of (fst (load_geojson_data file page)))" for f
  proof (cases "geojson_try file")
    case (Inl e)
    with that show ?thesis
      by (simp add: load_geojson_data_def features_of_empty)
  next
    case (Inr g)
    with that have "f \<in> set (features_of g)"
      by (simp add: load_geojson_data_def)
    from features_of_loaded [OF Inr this] obtain f0 where "process_feature f0 = Inr f"
      by blast
    from process_feature_ok [OF this] show ?thesis
      by (simp only: state_name_key_get)
  qed
  then show ?thesis
    by (auto simp: load_geojson_data_def features_of_empty)
qed

theorem loaded_features_have_state_name_witness:
  "JObj [(''properties'', JObj [(''NAME_1'', JStr ''Orissa''), (''State_Name'', JStr ''odisha'')])]
     \<in> set (features_of (fst (load_geojson_data
          (Inr (JObj [(''features'',
             JArr [JObj [(''properties'', JObj [(''NAME_1'', JNull)])],
                   JObj [(''properties'', JObj [(''NAME_1'', JStr ''Orissa'')])]])]))
          [])))
   \<and> (\<exists>feature properties.
        JObj [(''properties'', JObj [(''NAME_1'', JStr ''Orissa''), (''State_Name'', JStr ''odisha'')])]
          = JObj feature
        \<and> map_of feature ''properties'' = Some (JObj properties)
        \<and> map_of properties ''State_Name''
            = Some (JStr (case map_of properties ''NAME_1'' of
                            Some (JStr state_name) \<Rightarrow> standardize_name state_name
                          | _ \<Rightarrow> '''')))
   \<and> geojson_try (Inl OSError) = Inl OSError
   \<and> load_geojson_data (Inl OSError) []
       = (empty_feature_collection, [] @ [St_error ''Failed to load GeoJSON data: '' OSError])
   \<and> features_of empty_feature_collection = []"
proof -
  have "standardize_name ''Orissa'' = ''odisha''"
    by code_simp
  then have h1:
    "JObj [(''properties'', JObj [(''NAME_1'', JStr ''Orissa''), (''State_Name'', JStr ''odisha'')])]
     \<in> set (features_of (fst (load_geojson_data
          (Inr (JObj [(''features'',
             JArr [JObj [(''properties'', JObj [(''NAME_1'', JNull)])],
                   JObj [(''properties'', JObj [(''NAME_1'', JStr ''Orissa'')])]])]))
          [])))"
    by (simp add: load_geojson_data_def)
  have h2: "geojson_try (Inl OSError) = Inl OSError"
    by simp
  note c1 = loaded_features_have_state_name [THEN conjunct1, THEN bspec, OF h1]
  note c2 = loaded_features_have_state_name
    [of "Inl OSError" "[]", THEN conjunct2, THEN spec, THEN mp, OF h2]
  show ?thesis
    by (intro conjI h1 c1 h2 c2 [THEN conjunct1] c2 [THEN conjunct2])
qed

text \<open>
  What the \<^verbatim>\<open>try\<close> does with a collection that is not well formed: a feature that is
  not a dict, properties that are not a dict, no \<^verbatim>\<open>features\<close>.
\<close>

lemma load_geojson_data_malformed:
  "load_geojson_data (Inr (JObj [(''features'', JArr [JStr ''x''])])) []
     = (empty_feature_collection, [St_error ''Failed to load GeoJSON data: '' TypeError])
   \<and> load_geojson_data (Inr (JObj [(''features'', JArr [JObj [(''properties'', JNull)]])])) []
     = (empty_feature_collection, [St_error ''Failed to load GeoJSON data: '' AttributeError])
   \<and> load_geojson_data (Inr (JObj [(''type'', JStr ''FeatureCollection'')])) []
     = (empty_feature_collection, [St_error ''Failed to load GeoJSON data: '' KeyError])"
  by (simp add: load_geojson_data_def)

section \<open>Properties of the table loader\<close>

text \<open>
  C8. For every table name: when \<^verbatim>\<open>create_engine\<close> raises, when \<^verbatim>\<open>pd.read_sql\<close>
  raises (the server is unreachable, the table does not exist), and when the
  standardization of the \<^verbatim>\<open>States\<close> column raises, \<^verbatim>\<open>load_table_data\<close> returns the
  empty DataFrame and one more error is on the page. The function returns a frame and a
  page on every input: no exception of the \<^verbatim>\<open>try\<close> reaches the caller.
\<close>

theorem load_table_data_failure:
  "(create_engine = Inl e \<longrightarrow>
      load_table_data create_engine read_sql table_name page
        = ([], page @ [St_error ''Database connection failed: '' e]))
   \<and> (create_engine = Inr engine
        \<and> read_sql (''SELECT * FROM '' @ table_name) engine = Inl e \<longrightarrow>
      load_table_data create_engine read_sql table_name page
        = ([], page @ [St_error (''Failed to load data from '' @ table_name @ '': '') e]))
   \<and> (create_engine = Inr engine
        \<and> read_sql (''SELECT * FROM '' @ table_name) engine = Inr df
        \<and> standardize_table df = Inl e \<longrightarrow>
      load_table_data create_engine read_sql table_name page
        = ([], page @ [St_error (''Failed to load data from '' @ table_name @ '': '') e]))"
  by (simp add: load_table_data_def get_database_engine_def)

theorem load_table_data_failure_witness:
  "load_table_data (Inl ImportError :: exn + unit) (\<lambda>query engine. Inl DatabaseError)
       ''map_user'' []
     = ([], [] @ [St_error ''Database connection failed: '' ImportError])
   \<and> load_table_data (Inr ()) (\<lambda>query engine. Inl DatabaseError) ''map_user'' []
     = ([], [] @ [St_error (''Failed to load data from '' @ ''map_user'' @ '': '') DatabaseError])
   \<and> load_table_data (Inr ()) (\<lambda>query engine. Inr [(''States'', NumCol [Some 1])]) ''map_user'' []
     = ([], [] @ [St_error (''Failed to load data from '' @ ''map_user'' @ '': '') AttributeError])"
proof -
  have h: "standardize_table [(''States'', NumCol [Some 1])] = Inl AttributeError"
    by (simp add: standardize_table_def)
  note t = load_table_data_failure
  have c1: "load_table_data (Inl ImportError :: exn + unit) (\<lambda>query engine. Inl DatabaseError)
       ''map_user'' []
     = ([], [] @ [St_error ''Database connection failed: '' ImportError])"
    by (rule t [THEN conjunct1, rule_format]) (rule refl)
  have c2: "load_table_data (Inr ()) (\<lambda>query engine. Inl DatabaseError) ''map_user'' []
     = ([], [] @ [St_error (''Failed to load data from '' @ ''map_user'' @ '': '') DatabaseError])"
    by (rule t [THEN conjunct2, THEN conjunct1, rule_format]) simp
  have c3: "load_table_data (Inr ()) (\<lambda>query engine. Inr [(''States'', NumCol [Some 1])])
       ''map_user'' []
     = ([], [] @ [St_error (''Failed to load data from '' @ ''map_user'' @ '': '') AttributeError])"
    by (rule t [THEN conjunct2, THEN conjunct2, rule_format,
          where df = "[(''States'', NumCol [Some 1])]"]) (simp add: h)
  show ?thesis
    by (intro conjI c1 c2 c3)
qed

section \<open>Properties of the aggregation layer\<close>

subsection \<open>Sums over groups\<close>










subsection \<open>Ranking\<close>








text \<open>
  The example table: Bihar and Goa both sum to 70; Bihar comes first in the grouped
  frame, so it comes first among the two largest and is the one largest.
\<close>

lemma example_state_summary:
  "state_summary example_rows =
     [\<lparr>transaction_summary_row.State = ''assam'', transaction_summary_row.Transaction_amount = 30,
       transaction_summary_row.Transaction_count = 9\<rparr>,
      \<lparr>transaction_summary_row.State = ''bihar'', transaction_summary_row.Transaction_amount = 70,
       transaction_summary_row.Transaction_count = 5\<rparr>,
      \<lparr>transaction_summary_row.State = ''goa'', transaction_summary_row.Transaction_amount = 70,
       transaction_summary_row.Transaction_count = 7\<rparr>]"
  by (simp add: example_rows_def state_summary_def group_keys_def get_group_def
      List.map_filter_def)

lemma example_payment:
  "groupby_sum Transaction_type Transaction_count example_rows =
     [(''Merchant'', 7), (''Peer'', 9), (''Recharge'', 5)]"
  by (simp add: example_rows_def groupby_sum_def group_keys_def get_group_def
      List.map_filter_def)

lemma example_top:
  "nlargest 2 transaction_summary_row.Transaction_amount (state_summary example_rows) =
     [\<lparr>transaction_summary_row.State = ''bihar'', transaction_summary_row.Transaction_amount = 70,
       transaction_summary_row.Transaction_count = 5\<rparr>,
      \<lparr>transaction_summary_row.State = ''goa'', transaction_summary_row.Transaction_amount = 70,
       transaction_summary_row.Transaction_count = 7\<rparr>]"
  by (simp add: example_state_summary nlargest_def)

lemma example_top_one:
  "nlargest 1 transaction_summary_row.Transaction_amount (state_summary example_rows) =
     [\<lparr>transaction_summary_row.State = ''bihar'', transaction_summary_row.Transaction_amount = 70,
       transaction_summary_row.Transaction_count = 5\<rparr>]"
  by (simp add: example_state_summary nlargest_def)

subsection \<open>A period without rows\<close>

lemma group_keys_Nil: "group_keys key [] = []"
  by (simp add: group_keys_def List.map_filter_def)

lemma state_summary_Nil: "state_summary [] = []"
  by (simp add: state_summary_def group_keys_Nil)

lemma groupby_sum_Nil: "groupby_sum key col [] = []"
  by (simp add: groupby_sum_def group_keys_Nil)

lemma nlargest_Nil: "nlargest n col [] = []"
  by (simp add: nlargest_def)

text \<open>
  C7. When no row of the table has the selected year and quarter, the selection is the
  empty frame, and so are \<^verbatim>\<open>state_summary\<close> and every grouped sum of it: the
  operations return a frame, none raises. Each chart builder returns \<^verbatim>\<open>None\<close> for these
  frames, and for every frame without rows, after a warning on the page.
\<close>

theorem absent_period_is_empty:
  fixes df :: "'a transaction_row_scheme list"
    and key :: "'a transaction_row_scheme \<Rightarrow> 'k::linorder option"
    and col :: "'a transaction_row_scheme \<Rightarrow> 'v::linordered_ab_group_add"
  shows
  "((\<forall>r \<in> set df. \<not> (Years r = y \<and> Quarter r = q)) \<longrightarrow>
      filtered_data df y q = []
      \<and> state_summary (filtered_data df y q) = []
      \<and> groupby_sum key col (filtered_data df y q) = []
      \<and> create_choropleth_map geojson_data (state_summary (filtered_data df y q))
            State_col value_col map_title color_scale value_suffix page
          = (None, page @ [St_warning ''No data available for the map.''])
      \<and> create_bar_chart
            (nlargest 10 transaction_summary_row.Transaction_amount
               (state_summary (filtered_data df y q)))
            x_col y_col bar_title text_auto page
          = (None, page @ [St_warning ''No data available for the chart.''])
      \<and> create_pie_chart (nlargest 5 snd (groupby_sum key col (filtered_data df y q)))
            values_col names_col pie_title page
          = (None, page @ [St_warning ''No data available for the chart.'']))
   \<and> create_choropleth_map geojson_data ([] :: 'r list) State_col' value_col' title color_scale
         value_suffix page
       = (None, page @ [St_warning ''No data available for the map.''])
   \<and> create_pie_chart ([] :: 'r list) values_col' names_col' title page
       = (None, page @ [St_warning ''No data available for the chart.''])
   \<and> create_bar_chart ([] :: 'r list) x_col' y_col' title text_auto page
       = (None, page @ [St_warning ''No data available for the chart.''])"
proof -
  have "filtered_data df y q = []" if "\<forall>r \<in> set df. \<not> (Years r = y \<and> Quarter r = q)"
    using that by (simp add: filtered_data_def filter_empty_conv)
  then show ?thesis
    by (simp add: state_summary_Nil groupby_sum_Nil nlargest_Nil create_choropleth_map_def
        create_pie_chart_def create_bar_chart_def)
qed

theorem absent_period_is_empty_witness:
  "filtered_data example_rows 2099 1 = []
   \<and> state_summary (filtered_data example_rows 2099 1) = []
   \<and> groupby_sum Transaction_type Transaction_count (filtered_data example_rows 2099 1) = []
   \<and> create_choropleth_map empty_feature_collection
         (state_summary (filtered_data example_rows 2099 1))
         transaction_summary_row.State (''Amount_M'', Amount_M) ''Transactions'' ''Blues'' ''M'' []
       = (None, [] @ [St_warning ''No data available for the map.''])
   \<and> create_bar_chart
         (nlargest 10 transaction_summary_row.Transaction_amount
            (state_summary (filtered_data example_rows 2099 1)))
         transaction_summary_row.State Amount_M ''Top States'' True []
       = (None, [] @ [St_warning ''No data available for the chart.''])
   \<and> create_pie_chart
         (nlargest 5 snd
            (groupby_sum Transaction_type Transaction_count (filtered_data example_rows 2099 1)))
         (\<lambda>r. real_of_int (snd r)) fst ''Payment Types'' []
       = (None, [] @ [St_warning ''No data available for the chart.''])"
proof -
  have h: "\<forall>r \<in> set example_rows. \<not> (Years r = 2099 \<and> Quarter r = 1)"
    by (simp add: example_rows_def)
  note c = absent_period_is_empty
    [where df = example_rows and y = 2099 and q = 1 and key = Transaction_type
       and col = Transaction_count and page = "[]",
     THEN conjunct1, THEN mp, OF h]
  show ?thesis
    by (intro conjI c [THEN conjunct1] c [THEN conjunct2, THEN conjunct1]
        c [THEN conjunct2, THEN conjunct2, THEN conjunct1]
        c [THEN conjunct2, THEN conjunct2, THEN conjunct2, THEN conjunct1]
        c [THEN conjunct2, THEN conjunct2, THEN conjunct2, THEN conjunct2, THEN conjunct1]
        c [THEN conjunct2, THEN conjunct2, THEN conjunct2, THEN conjunct2, THEN conjunct2])
qed

subsection \<open>The derived ratios\<close>

text \<open>
  C1 at a group whose denominator is 0 and whose numerator is not: one row of
  \<^verbatim>\<open>map_transaction\<close> with \<^verbatim>\<open>Transaction_amount\<close> 100 and \<^verbatim>\<open>Transaction_count\<close> 0 gets
  the \<^verbatim>\<open>Growth_Score\<close> infinity, and one row of \<^verbatim>\<open>map_user\<close> with \<^verbatim>\<open>AppOpens\<close> 5 and
  \<^verbatim>\<open>RegisteredUsers\<close> 0 gets the \<^verbatim>\<open>Engagement_Rate\<close> infinity: \<^verbatim>\<open>fillna(0)\<close> replaces
  NaN only.
\<close>

theorem ratio_over_zero_is_infinite:
  "map Growth_Score
     (state_summary [\<lparr>State = Some ''goa'', Years = 2023, Quarter = 1, Transaction_count = 0,
                      Transaction_amount = 100\<rparr>]) = [PosInf]
   \<and> map Engagement_Rate
     (user_summary [\<lparr>State = Some ''goa'', Years = 2023, Quarter = 1,
                     District = Some ''north goa'', RegisteredUsers = 0, AppOpens = 5\<rparr>])
       = [PosInf]"
  by (simp add: state_summary_def user_summary_def group_keys_def get_group_def
      List.map_filter_def Growth_Score_def Engagement_Rate_def truediv_def)

text \<open>
  What does hold: a ratio is never NaN, and with the denominator 0 it is 0 exactly when
  the numerator is 0 too.
\<close>

lemma ratios_never_nan: "Growth_Score r \<noteq> NaN \<and> Engagement_Rate u \<noteq> NaN"
  by (simp add: Growth_Score_def Engagement_Rate_def truediv_def)

lemma Growth_Score_zero_count:
  "transaction_summary_row.Transaction_count r = 0 \<Longrightarrow>
     Growth_Score r =
       (if 0 < transaction_summary_row.Transaction_amount r then PosInf
        else if transaction_summary_row.Transaction_amount r < 0 then NegInf else Finite 0)"
  by (simp add: Growth_Score_def truediv_def)

lemma Engagement_Rate_zero_users:
  "user_summary_row.RegisteredUsers u = 0 \<Longrightarrow>
     Engagement_Rate u =
       (if 0 < user_summary_row.AppOpens u then PosInf
        else if user_summary_row.AppOpens u < 0 then NegInf else Finite 0)"
  by (simp add: Engagement_Rate_def truediv_def)

text \<open>Two rows of one state: one row of sums, and its ratio.\<close>

lemma odisha_scenario:
  "state_summary
     [\<lparr>State = Some ''odisha'', Years = 2023, Quarter = 1, Transaction_count = 10,
       Transaction_amount = 100\<rparr>,
      \<lparr>State = Some ''odisha'', Years = 2023, Quarter = 1, Transaction_count = 5,
       Transaction_amount = 50\<rparr>]
     = [\<lparr>transaction_summary_row.State = ''odisha'',
         transaction_summary_row.Transaction_amount = 150,
         transaction_summary_row.Transaction_count = 15\<rparr>]
   \<and> Growth_Score \<lparr>transaction_summary_row.State = ''odisha'',
         transaction_summary_row.Transaction_amount = 150,
         transaction_summary_row.Transaction_count = 15\<rparr> = Finite 10"
  by (simp add: state_summary_def group_keys_def get_group_def
      List.map_filter_def Growth_Score_def truediv_def)

end
